theory Spec2Isabelle
  imports Complex_Main "HOL-Library.Multiset" "HOL-Library.Sublist"
begin

section \<open>The movie catalog: data\<close>

text \<open>
  The program keeps one SQLite table \<^verbatim>\<open>movies\<close> with the columns
  \<^verbatim>\<open>title TEXT UNIQUE NOT NULL, year INTEGER NOT NULL, rating REAL NOT NULL, poster TEXT NOT NULL\<close>
  (\<^verbatim>\<open>movies_storage_sql.py\<close>, lines 12-22). A row is the tuple that
  \<^verbatim>\<open>fetchall()\<close> yields, \<^verbatim>\<open>row[0]\<close> being the title; the table is the list of its rows in
  storage order. The surrogate \<^verbatim>\<open>id\<close> column is never selected by the program and is left out.
  Ratings are Python floats in the source; they are modelled as reals, which keeps their order
  and equality (the column is \<^verbatim>\<open>NOT NULL\<close>, so no NaN is stored) but not the rounding of
  float arithmetic.
\<close>

type_synonym row = "string \<times> int \<times> real \<times> string"
type_synonym table = "row list"

text \<open>
  \<^verbatim>\<open>get_movies()\<close> returns a dict \<^verbatim>\<open>{title: {"year": ..., "rating": ...}}\<close>. A Python dict
  iterates in insertion order, so the snapshot is an association list in row order.
\<close>

record info =
  year :: int
  rating :: real

type_synonym movies = "(string \<times> info) list"

text \<open>The tuples \<^verbatim>\<open>(movie, infos['year'], infos['rating'])\<close> built by the query functions.\<close>

type_synonym entry = "string \<times> int \<times> real"

definition entry_title :: "entry \<Rightarrow> string" where
  "entry_title movie = fst movie"

definition entry_year :: "entry \<Rightarrow> int" where
  "entry_year movie = fst (snd movie)"

definition entry_rating :: "entry \<Rightarrow> real" where
  "entry_rating movie = snd (snd movie)"

definition entries :: "movies \<Rightarrow> entry list" where
  "entries movies = map (\<lambda>(movie, infos). (movie, year infos, rating infos)) movies"

text \<open>The Python exceptions that the modelled code can raise.\<close>

datatype exn =
    ZeroDivisionError
  | IndexError
  | ValueError
  | EOFError
  | KeyError string
  | JSONDecodeError
  | RequestException string
  | DBError string

text \<open>
  Every menu function of \<^verbatim>\<open>movies.py\<close> returns a list of strings to print. \<open>Lines x\<close> stands for
  the list of formatted lines built from \<open>x\<close> (one f-string per entry; the printing of floats is
  not modelled), \<open>Message s\<close> for the one-element list \<^verbatim>\<open>[s]\<close>, and \<open>Unexpected e\<close> for
  \<^verbatim>\<open>[f'Unexpected error: {str(e)}']\<close>, the result of the final \<^verbatim>\<open>except Exception as e\<close>.
\<close>

datatype 'a reply = Lines 'a | Message string | Unexpected exn

definition database_empty :: string where
  "database_empty = ''Database is empty, add movies to database.''"

section \<open>The store: \<^verbatim>\<open>movies_storage_sql.py\<close>\<close>

text \<open>
  What the store functions take from outside the program is made explicit. The faults of the
  database:
  \<^item> \<open>connect_fault\<close>: the exception raised by \<^verbatim>\<open>engine.connect()\<close> or by a \<^verbatim>\<open>SELECT\<close>, if any;
  \<^item> \<open>execute_fault\<close>: the exception raised by the database driver while a write statement is
    executed or committed, if any (disk full, locked file, ...).
\<close>

record faults =
  connect_fault :: "exn option"
  execute_fault :: "exn option"

text \<open>
  And, for \<^verbatim>\<open>add_movie\<close>:
  \<^item> \<open>requests_get title\<close>: what \<^verbatim>\<open>requests.get(url)\<close> does for the URL built from \<open>title\<close>:
    it raises (no connection, timeout, ...) or returns a response;
  \<^item> \<open>db_faults\<close>: the faults of the database during the call;
  \<^item> \<open>integer_affinity\<close>, \<open>real_affinity\<close>: SQLite's conversion of the bound text to the type of
    an \<^verbatim>\<open>INTEGER\<close> or \<^verbatim>\<open>REAL\<close> column (OMDb sends year and rating as JSON strings).
  A response carries its status code and, when its body parses as JSON, the parsed object; the
  fields the program reads are JSON strings.
\<close>

record response =
  status_code :: int
  json :: "(string \<rightharpoonup> string) option"

record env =
  requests_get :: "string \<Rightarrow> exn + response"
  db_faults :: faults
  integer_affinity :: "string \<Rightarrow> int"
  real_affinity :: "string \<Rightarrow> real"

definition row_title :: "row \<Rightarrow> string" where
  "row_title r = fst r"

definition row_year :: "row \<Rightarrow> int" where
  "row_year r = fst (snd r)"

definition row_rating :: "row \<Rightarrow> real" where
  "row_rating r = fst (snd (snd r))"

definition row_poster :: "row \<Rightarrow> string" where
  "row_poster r = snd (snd (snd r))"

text \<open>
  \<^verbatim>\<open>get_movies\<close> (lines 24-34): \<^verbatim>\<open>SELECT title, year, rating FROM movies\<close>, then the dict
  comprehension over the rows. Titles are unique in the table, so no key is overwritten.
\<close>

definition get_movies :: "faults \<Rightarrow> table \<Rightarrow> exn + movies" where
  "get_movies f tbl =
     (case connect_fault f of
        Some err \<Rightarrow> Inl err
      | None \<Rightarrow> Inr (map (\<lambda>(t, y, r, p). (t, \<lparr>year = y, rating = r\<rparr>)) tbl))"

text \<open>
  The \<^verbatim>\<open>INSERT\<close> statement followed by \<^verbatim>\<open>commit()\<close>: a driver fault raises, a title that is
  already in the table violates the \<^verbatim>\<open>UNIQUE\<close> constraint, and otherwise the row is appended.
  The table changes only when both the statement and the commit succeed.
\<close>

definition execute_insert :: "faults \<Rightarrow> table \<Rightarrow> row \<Rightarrow> exn + table" where
  "execute_insert f tbl r =
     (case execute_fault f of
        Some err \<Rightarrow> Inl err
      | None \<Rightarrow>
          if row_title r \<in> set (map row_title tbl)
          then Inl (DBError ''UNIQUE constraint failed: movies.title'')
          else Inr (tbl @ [r]))"

text \<open>
  The parameter dict of the \<^verbatim>\<open>INSERT\<close> (line 80) is built inside the \<^verbatim>\<open>try\<close>: a missing key
  raises \<^verbatim>\<open>KeyError\<close> there, in the order title, year, rating, poster.
\<close>

definition insert_params ::
  "(string \<rightharpoonup> string) \<Rightarrow> exn + (string \<times> string \<times> string \<times> string)" where
  "insert_params parsed =
     (case parsed ''Title'' of
        None \<Rightarrow> Inl (KeyError ''Title'')
      | Some t \<Rightarrow>
     (case parsed ''Year'' of
        None \<Rightarrow> Inl (KeyError ''Year'')
      | Some y \<Rightarrow>
     (case parsed ''imdbRating'' of
        None \<Rightarrow> Inl (KeyError ''imdbRating'')
      | Some r \<Rightarrow>
     (case parsed ''Poster'' of
        None \<Rightarrow> Inl (KeyError ''Poster'')
      | Some p \<Rightarrow> Inr (t, y, r, p)))))"

text \<open>
  The status dictionary that \<^verbatim>\<open>add_movie\<close> returns, one constructor per value of its
  \<^verbatim>\<open>"reason"\<close> field: \<open>Added title year rating poster\<close>, \<open>Not_found title\<close>,
  \<open>Duplicate title\<close>, \<open>Api_connection title\<close> and \<open>Database_error e\<close>, whose \<^verbatim>\<open>"error"\<close>
  field is \<^verbatim>\<open>str(e)\<close>.
\<close>

datatype add_result =
    Added string string string string
  | Not_found string
  | Duplicate string
  | Api_connection string
  | Database_error exn

text \<open>
  \<^verbatim>\<open>add_movie\<close> (lines 47-91). The result pairs what the call does (it raises, \<open>Inl\<close>, or
  returns a status, \<open>Inr\<close>) with the table afterwards. In the order of the source:
  \<^verbatim>\<open>requests.get\<close>, \<^verbatim>\<open>res.json()\<close>, the status check, \<^verbatim>\<open>parsed["Response"]\<close>,
  \<^verbatim>\<open>get_movies()\<close>, \<^verbatim>\<open>parsed["Title"] in existing_movies\<close>, \<^verbatim>\<open>engine.connect()\<close>, and the
  \<^verbatim>\<open>try\<close> block, whose every exception becomes \<^verbatim>\<open>database_error\<close>.
\<close>

definition add_movie :: "env \<Rightarrow> table \<Rightarrow> string \<Rightarrow> (exn + add_result) \<times> table" where
  "add_movie e tbl title =
     (case requests_get e title of
        Inl err \<Rightarrow> (Inl err, tbl)
      | Inr res \<Rightarrow>
     (case json res of
        None \<Rightarrow> (Inl JSONDecodeError, tbl)
      | Some parsed \<Rightarrow>
          if status_code res \<noteq> 200 then (Inr (Api_connection title), tbl)
          else
     (case parsed ''Response'' of
        None \<Rightarrow> (Inl (KeyError ''Response''), tbl)
      | Some response \<Rightarrow>
          if response = ''False'' then (Inr (Not_found title), tbl)
          else
     (case get_movies (db_faults e) tbl of
        Inl err \<Rightarrow> (Inl err, tbl)
      | Inr existing_movies \<Rightarrow>
     (case parsed ''Title'' of
        None \<Rightarrow> (Inl (KeyError ''Title''), tbl)
      | Some canonical \<Rightarrow>
          if canonical \<in> set (map fst existing_movies)
          then (Inr (Duplicate canonical), tbl)
          else
     (case connect_fault (db_faults e) of
        Some err \<Rightarrow> (Inl err, tbl)
      | None \<Rightarrow>
     (case insert_params parsed of
        Inl err \<Rightarrow> (Inr (Database_error err), tbl)
      | Inr (t, y, r, p) \<Rightarrow>
     (case execute_insert (db_faults e) tbl (t, integer_affinity e y, real_affinity e r, p) of
        Inl err \<Rightarrow> (Inr (Database_error err), tbl)
      | Inr tbl' \<Rightarrow> (Inr (Added t y r p), tbl')))))))))"

text \<open>
  \<^verbatim>\<open>delete_movie\<close> (lines 93-108): \<^verbatim>\<open>DELETE FROM movies WHERE title = :title\<close>, commit,
  \<^verbatim>\<open>return True\<close>; \<^verbatim>\<open>return False\<close> in the \<^verbatim>\<open>except\<close>. The number of deleted rows is not
  read. \<^verbatim>\<open>engine.connect()\<close> is outside the \<^verbatim>\<open>try\<close>.
\<close>

definition delete_movie :: "faults \<Rightarrow> table \<Rightarrow> string \<Rightarrow> (exn + bool) \<times> table" where
  "delete_movie f tbl title =
     (case connect_fault f of
        Some err \<Rightarrow> (Inl err, tbl)
      | None \<Rightarrow>
     (case execute_fault f of
        Some err \<Rightarrow> (Inr False, tbl)
      | None \<Rightarrow> (Inr True, filter (\<lambda>r. row_title r \<noteq> title) tbl)))"

text \<open>
  \<^verbatim>\<open>update_movie\<close> (lines 110-124): \<^verbatim>\<open>UPDATE movies SET rating = :rating WHERE title = :title\<close>,
  with the same shape.
\<close>

definition set_rating :: "real \<Rightarrow> row \<Rightarrow> row" where
  "set_rating new_rating r = (row_title r, row_year r, new_rating, row_poster r)"

definition update_movie :: "faults \<Rightarrow> table \<Rightarrow> string \<Rightarrow> real \<Rightarrow> (exn + bool) \<times> table" where
  "update_movie f tbl title new_rating =
     (case connect_fault f of
        Some err \<Rightarrow> (Inl err, tbl)
      | None \<Rightarrow>
     (case execute_fault f of
        Some err \<Rightarrow> (Inr False, tbl)
      | None \<Rightarrow>
          (Inr True, map (\<lambda>r. if row_title r = title then set_rating new_rating r else r) tbl)))"

section \<open>The query functions: \<^verbatim>\<open>movies.py\<close>\<close>

text \<open>
  Each function below is the body of the source function after its
  \<^verbatim>\<open>movies = ms.get_movies()\<close>, as a function of that snapshot.
\<close>

subsection \<open>Statistics\<close>

text \<open>
  \<^verbatim>\<open>calc_rating_average\<close> (lines 162-173): the running sum over \<^verbatim>\<open>movies.items()\<close>, divided by
  \<^verbatim>\<open>len(movies)\<close>, which raises \<^verbatim>\<open>ZeroDivisionError\<close> on an empty dict. The value is the mean
  before \<^verbatim>\<open>round(average_rating, 1)\<close>, which belongs to the printed line.
\<close>

definition calc_rating_average :: "movies \<Rightarrow> exn + real" where
  "calc_rating_average movies =
     (let sum_ratings = fold (\<lambda>(movie, infos) s. s + rating infos) movies 0
      in if length movies = 0 then Inl ZeroDivisionError
         else Inr (sum_ratings / real (length movies)))"

text \<open>
  \<^verbatim>\<open>calc_rating_median\<close> (lines 175-185): \<^verbatim>\<open>sorted(rating_lst)[len(sorted_rating_lst) // 2]\<close>;
  the index is out of range exactly when the list is empty.
\<close>

definition calc_rating_median :: "movies \<Rightarrow> exn + real" where
  "calc_rating_median movies =
     (let rating_lst = map (\<lambda>(movie, infos). rating infos) movies;
          sorted_rating_lst = sort rating_lst;
          media_index = length sorted_rating_lst div 2
      in if media_index < length sorted_rating_lst
         then Inr (sorted_rating_lst ! media_index)
         else Inl IndexError)"

text \<open>
  Python's \<^verbatim>\<open>max\<close> and \<^verbatim>\<open>min\<close> over an iterable: \<^verbatim>\<open>ValueError\<close> when it is empty, otherwise
  the first item is kept until a strictly greater (smaller) one is met.
\<close>

fun py_max :: "real list \<Rightarrow> exn + real" where
  "py_max [] = Inl ValueError"
| "py_max (x # xs) = Inr (fold (\<lambda>item best. if item > best then item else best) xs x)"

fun py_min :: "real list \<Rightarrow> exn + real" where
  "py_min [] = Inl ValueError"
| "py_min (x # xs) = Inr (fold (\<lambda>item best. if item < best then item else best) xs x)"

text \<open>\<^verbatim>\<open>return_best_movie\<close> (lines 187-197) and \<^verbatim>\<open>return_worst_movie\<close> (lines 199-209).\<close>

definition return_best_movie :: "movies \<Rightarrow> exn + entry list" where
  "return_best_movie movies =
     (case py_max (map (\<lambda>(movie, infos). rating infos) movies) of
        Inl err \<Rightarrow> Inl err
      | Inr best_movie_rating \<Rightarrow>
          Inr (map (\<lambda>(movie, infos). (movie, year infos, rating infos))
                 (filter (\<lambda>(movie, infos). rating infos = best_movie_rating) movies)))"

definition return_worst_movie :: "movies \<Rightarrow> exn + entry list" where
  "return_worst_movie movies =
     (case py_min (map (\<lambda>(movie, infos). rating infos) movies) of
        Inl err \<Rightarrow> Inl err
      | Inr worst_movie_rating \<Rightarrow>
          Inr (map (\<lambda>(movie, infos). (movie, year infos, rating infos))
                 (filter (\<lambda>(movie, infos). rating infos = worst_movie_rating) movies)))"

text \<open>
  The handlers of \<^verbatim>\<open>calc_stats_for_all_movies\<close> (lines 217-226): \<^verbatim>\<open>ZeroDivisionError\<close> gives the
  empty-database message, every other exception of the model reaches \<^verbatim>\<open>except Exception\<close>.
\<close>

fun stats_handler :: "exn \<Rightarrow> 'a reply" where
  "stats_handler ZeroDivisionError = Message database_empty"
| "stats_handler err = Unexpected err"

text \<open>
  \<^verbatim>\<open>calc_stats_for_all_movies\<close> (lines 161-226) calls the four nested functions in turn inside
  one \<^verbatim>\<open>try\<close>; the first exception ends it.
\<close>

definition calc_stats_for_all_movies ::
  "movies \<Rightarrow> (real \<times> real \<times> entry list \<times> entry list) reply" where
  "calc_stats_for_all_movies movies =
     (case calc_rating_average movies of
        Inl err \<Rightarrow> stats_handler err
      | Inr average \<Rightarrow>
     (case calc_rating_median movies of
        Inl err \<Rightarrow> stats_handler err
      | Inr median \<Rightarrow>
     (case return_best_movie movies of
        Inl err \<Rightarrow> stats_handler err
      | Inr best_movie \<Rightarrow>
     (case return_worst_movie movies of
        Inl err \<Rightarrow> stats_handler err
      | Inr worst_movie \<Rightarrow> Lines (average, median, best_movie, worst_movie)))))"

subsection \<open>Random movie\<close>

text \<open>
  \<^verbatim>\<open>return_random_movie\<close> (lines 242-259). \<open>randrange\<close> stands for \<^verbatim>\<open>rand.randrange\<close>; the
  reply is the chosen title with its rating.
\<close>

definition return_random_movie :: "(nat \<Rightarrow> nat) \<Rightarrow> movies \<Rightarrow> (string \<times> real) reply" where
  "return_random_movie randrange movies =
     (if movies = [] then Message database_empty
      else
        let movies_lst = map fst movies;
            movies_lst_len = length movies_lst;
            i = randrange movies_lst_len
        in if i < movies_lst_len
           then (case map_of movies (movies_lst ! i) of
                   Some infos \<Rightarrow> Lines (movies_lst ! i, rating infos)
                 | None \<Rightarrow> Unexpected (KeyError (movies_lst ! i)))
           else Unexpected IndexError)"

subsection \<open>Search\<close>

text \<open>
  A Python \<^verbatim>\<open>str\<close> is a sequence of Unicode code points; a \<^typ>\<open>string\<close> of the model is its
  UTF-8 encoding, in which one string occurs inside another exactly when it does as code
  points. \<^verbatim>\<open>str.lower()\<close> lowers every cased letter of Unicode, by tables that are not part of
  the program: the search takes it as the parameter \<open>str_lower\<close>.

  On a string of ASCII characters \<^verbatim>\<open>str.lower()\<close> replaces \<^verbatim>\<open>A\<close> to \<^verbatim>\<open>Z\<close> by \<^verbatim>\<open>a\<close> to \<^verbatim>\<open>z\<close> and
  keeps every other character. \<open>ascii_lower\<close> is that function; it stands for \<^verbatim>\<open>str.lower()\<close>
  in the examples, whose strings are all ASCII, and nowhere else.
\<close>

definition ascii_lower_char :: "char \<Rightarrow> char" where
  "ascii_lower_char c =
     (case map_of (zip ''ABCDEFGHIJKLMNOPQRSTUVWXYZ'' ''abcdefghijklmnopqrstuvwxyz'') c of
        Some l \<Rightarrow> l
      | None \<Rightarrow> c)"

definition ascii_lower :: "string \<Rightarrow> string" where
  "ascii_lower s = map ascii_lower_char s"

definition not_found_message :: "string \<Rightarrow> string" where
  "not_found_message search_request =
     [CHR 0x0A] @ ''Couldn't found movies with '' @ [CHR 0x27] @ search_request @ [CHR 0x27]"

text \<open>
  \<^verbatim>\<open>search_for_movie_in_dict\<close> (lines 278-298), with the line typed by the user as
  \<open>search_request\<close> and \<^verbatim>\<open>.lower()\<close> as \<open>str_lower\<close>. Python's \<^verbatim>\<open>a in b\<close> on strings is \<^const>\<open>sublist\<close>: \<open>a\<close> occurs in \<open>b\<close> as a
  contiguous piece.
\<close>

definition search_for_movie_in_dict ::
  "(string \<Rightarrow> string) \<Rightarrow> string \<Rightarrow> movies \<Rightarrow> entry list reply" where
  "search_for_movie_in_dict str_lower search_request movies =
     (let search_request_lower = str_lower search_request;
          search_result =
            map (\<lambda>(movie, infos). (movie, year infos, rating infos))
              (filter (\<lambda>(movie, infos). sublist search_request_lower (str_lower movie)) movies)
      in if search_result = [] then Message (not_found_message search_request)
         else Lines search_result)"

subsection \<open>Sorting\<close>

text \<open>
  Both sort functions run the same two nested loops, on the rating (\<^verbatim>\<open>movie[2]\<close>, from
  \<^verbatim>\<open>best_rating = 0.0\<close>) and on the year (\<^verbatim>\<open>movie[1]\<close>, from \<^verbatim>\<open>youngest_year = 0\<close>). The inner
  \<^verbatim>\<open>for\<close> loop keeps the first tuple whose key is strictly greater than every key before it
  and than the start value:
  \<^verbatim>\<open>
      for movie in rating_lst:
          current_rating = movie[2]
          if current_rating > best_rating:
              best_rating = current_rating
              best_movie = movie
  \<close>
\<close>

fun scan_best :: "('a \<Rightarrow> 'k::linorder) \<Rightarrow> 'k \<Rightarrow> 'a option \<Rightarrow> 'a list \<Rightarrow> 'a option" where
  "scan_best key best_key best_movie [] = best_movie"
| "scan_best key best_key best_movie (movie # rest) =
     (if key movie > best_key then scan_best key (key movie) (Some movie) rest
      else scan_best key best_key best_movie rest)"

text \<open>
  The outer loop,
  \<^verbatim>\<open>
      while rating_lst:
          best_rating = 0.0
          best_movie = None
          (the for loop)
          if best_movie:
              sorted_lst.append(best_movie)
              rating_lst.remove(best_movie)
  \<close>
  changes nothing in a round that finds no tuple, and then runs again on the same list. It is
  a partial function: \<open>None\<close> means that the loop never ends.
\<close>

partial_function (option) selection_loop ::
  "('a \<Rightarrow> 'k::linorder) \<Rightarrow> 'k \<Rightarrow> 'a list \<Rightarrow> 'a list \<Rightarrow> 'a list option" where
  "selection_loop key start lst sorted_lst =
     (if lst = [] then Some sorted_lst
      else case scan_best key start None lst of
             Some best_movie \<Rightarrow>
               selection_loop key start (remove1 best_movie lst) (sorted_lst @ [best_movie])
           | None \<Rightarrow> selection_loop key start lst sorted_lst)"

text \<open>\<^verbatim>\<open>sort_movies_by_rating\<close> (lines 316-339).\<close>

definition sort_movies_by_rating :: "movies \<Rightarrow> entry list reply option" where
  "sort_movies_by_rating movies =
     (if movies = [] then Some (Message database_empty)
      else map_option Lines (selection_loop entry_rating 0 (entries movies) []))"

text \<open>
  The prompt of \<^verbatim>\<open>sort_movies_by_year\<close> (lines 390-401) reads lines until one of them is
  \<^verbatim>\<open>b\<close>, \<^verbatim>\<open>old\<close> or \<^verbatim>\<open>young\<close>; \<^verbatim>\<open>input()\<close> raises \<^verbatim>\<open>EOFError\<close> when there is none left.
\<close>

fun choose_order :: "string list \<Rightarrow> entry list \<Rightarrow> entry list reply" where
  "choose_order [] sorted_lst = Unexpected EOFError"
| "choose_order (user_input # later) sorted_lst =
     (if user_input = ''b'' then Lines []
      else if user_input = ''old'' then Lines (rev sorted_lst)
      else if user_input = ''young'' then Lines sorted_lst
      else choose_order later sorted_lst)"

text \<open>\<^verbatim>\<open>sort_movies_by_year\<close> (lines 368-412): the loop runs first, then the prompt.\<close>

definition sort_movies_by_year :: "string list \<Rightarrow> movies \<Rightarrow> entry list reply option" where
  "sort_movies_by_year inputs movies =
     (if movies = [] then Some (Message database_empty)
      else map_option (choose_order inputs) (selection_loop entry_year 0 (entries movies) []))"

section \<open>Properties of the selection loop\<close>

lemma scan_best_none:
  "\<forall>x\<in>set xs. key x \<le> b \<Longrightarrow> scan_best key b bm xs = bm"
  by (induction xs) auto

lemma scan_best_split:
  "\<exists>x\<in>set xs. b < key x \<Longrightarrow>
   \<exists>ps m ss. xs = ps @ m # ss \<and> scan_best key b bm xs = Some m \<and> b < key m
     \<and> (\<forall>p\<in>set ps. key p < key m) \<and> (\<forall>s\<in>set ss. key s \<le> key m)"
proof (induction xs arbitrary: b bm)
  case Nil
  then show ?case by simp
next
  case (Cons x xs)
  show ?case
  proof (cases "b < key x")
    case True
    note bx = this
    show ?thesis
    proof (cases "\<exists>y\<in>set xs. key x < key y")
      case True
      from Cons.IH[OF True, of "Some x"] obtain ps m ss where
        h: "xs = ps @ m # ss" "scan_best key (key x) (Some x) xs = Some m" "key x < key m"
           "\<forall>p\<in>set ps. key p < key m" "\<forall>s\<in>set ss. key s \<le> key m"
        by blast
      have "x # xs = (x # ps) @ m # ss" using h(1) by simp
      moreover have "scan_best key b bm (x # xs) = Some m" using bx h(2) by simp
      moreover have "b < key m" using bx h(3) by simp
      moreover have "\<forall>p\<in>set (x # ps). key p < key m" using h(3,4) by simp
      ultimately show ?thesis using h(5) by blast
    next
      case False
      then have le: "\<forall>y\<in>set xs. key y \<le> key x" by (simp add: not_less)
      have "scan_best key b bm (x # xs) = Some x"
        using bx scan_best_none[OF le] by simp
      moreover have "x # xs = [] @ x # xs" by simp
      ultimately show ?thesis using bx le by fastforce
    qed
  next
    case False
    with Cons.prems have ex: "\<exists>y\<in>set xs. b < key y" by auto
    from Cons.IH[OF ex, of bm] obtain ps m ss where
      h: "xs = ps @ m # ss" "scan_best key b bm xs = Some m" "b < key m"
         "\<forall>p\<in>set ps. key p < key m" "\<forall>s\<in>set ss. key s \<le> key m"
      by blast
    have "x # xs = (x # ps) @ m # ss" using h(1) by simp
    moreover have "scan_best key b bm (x # xs) = Some m" using False h(2) by simp
    moreover have "\<forall>p\<in>set (x # ps). key p < key m" using False h(3,4) by auto
    ultimately show ?thesis using h(3,5) by blast
  qed
qed

lemma remove1_split:
  "m \<notin> set ps \<Longrightarrow> remove1 m (ps @ m # ss) = ps @ ss"
  by (simp add: remove1_append)

text \<open>
  When every key is above the start value, each round of the loop moves the first tuple of
  greatest key to the end of \<open>sorted_lst\<close>: the loop ends, and what it appends is the stable
  descending sort of the list.
\<close>

lemma selection_loop_sorts:
  "\<forall>x\<in>set lst. start < key x \<Longrightarrow>
   \<exists>r. selection_loop key start lst acc = Some (acc @ r) \<and> mset r = mset lst
     \<and> sorted_wrt (\<lambda>a b. key b \<le> key a) r
     \<and> (\<forall>k. filter (\<lambda>x. key x = k) r = filter (\<lambda>x. key x = k) lst)"
proof (induction "length lst" arbitrary: lst acc)
  case 0
  then show ?case by (simp add: selection_loop.simps)
next
  case (Suc n)
  then have ne: "lst \<noteq> []" by auto
  then have "\<exists>x\<in>set lst. start < key x" using Suc.prems by (cases lst) auto
  from scan_best_split[OF this, of None] obtain ps m ss where
    h: "lst = ps @ m # ss" "scan_best key start None lst = Some m"
       "\<forall>p\<in>set ps. key p < key m" "\<forall>s\<in>set ss. key s \<le> key m"
    by blast
  have "m \<notin> set ps" using h(3) by auto
  then have rm: "remove1 m lst = ps @ ss" using h(1) by (simp add: remove1_split)
  have len: "n = length (ps @ ss)" using Suc.hyps(2) h(1) by simp
  have pos: "\<forall>x\<in>set (ps @ ss). start < key x" using Suc.prems h(1) by auto
  from Suc.hyps(1)[OF len pos, of "acc @ [m]"] obtain r where
    r: "selection_loop key start (ps @ ss) (acc @ [m]) = Some ((acc @ [m]) @ r)"
       "mset r = mset (ps @ ss)" "sorted_wrt (\<lambda>a b. key b \<le> key a) r"
       "\<forall>k. filter (\<lambda>x. key x = k) r = filter (\<lambda>x. key x = k) (ps @ ss)"
    by blast
  have run: "selection_loop key start lst acc = Some (acc @ m # r)"
    using ne h(2) rm r(1) by (subst selection_loop.simps) simp
  have ms: "mset (m # r) = mset lst" using r(2) h(1) by simp
  have "set r = set (ps @ ss)" using r(2) by (metis set_mset_mset)
  then have "\<forall>y\<in>set r. key y \<le> key m" using h(3,4) by auto
  then have so: "sorted_wrt (\<lambda>a b. key b \<le> key a) (m # r)" using r(3) by simp
  have st: "filter (\<lambda>x. key x = k) (m # r) = filter (\<lambda>x. key x = k) lst" for k
  proof -
    have "filter (\<lambda>x. key x = k) ps = []" if "k = key m"
      using h(3) that by (auto simp: filter_empty_conv)
    then show ?thesis using r(4) h(1) by auto
  qed
  show ?case using run ms so st by blast
qed

text \<open>
  Conversely the loop ends only then: a tuple whose key is not above the start value is never
  chosen and never removed.
\<close>

lemma selection_loop_returns_pos:
  assumes "selection_loop key start lst acc = Some r"
  shows "\<forall>x\<in>set lst. start < key x"
proof (rule selection_loop.raw_induct
    [where P = "\<lambda>key start lst acc r. \<forall>x\<in>set lst. start < key x", OF _ assms])
  fix loop :: "('a \<Rightarrow> 'b) \<Rightarrow> 'b \<Rightarrow> 'a list \<Rightarrow> 'a list \<Rightarrow> 'a list option"
  fix key start lst acc r
  assume IH: "\<And>key start lst acc r. loop key start lst acc = Some r \<Longrightarrow> \<forall>x\<in>set lst. start < key x"
  assume step: "(if lst = [] then Some acc
        else case scan_best key start None lst of
             None \<Rightarrow> loop key start lst acc
             | Some best_movie \<Rightarrow> loop key start (remove1 best_movie lst) (acc @ [best_movie])) = Some r"
  show "\<forall>x\<in>set lst. start < key x"
  proof (cases "lst = []")
    case True
    then show ?thesis by simp
  next
    case False
    show ?thesis
    proof (cases "scan_best key start None lst")
      case None
      then show ?thesis using IH step False by simp
    next
      case (Some bm)
      then have rec: "loop key start (remove1 bm lst) (acc @ [bm]) = Some r"
        using step False by simp
      have rest: "\<forall>x\<in>set (remove1 bm lst). start < key x" using IH[OF rec] .
      have "\<exists>x\<in>set lst. start < key x"
      proof (rule ccontr)
        assume "\<not> ?thesis"
        then have "\<forall>x\<in>set lst. key x \<le> start" by (simp add: not_less)
        from scan_best_none[OF this, of None] Some show False by simp
      qed
      from scan_best_split[OF this, of None] Some have "start < key bm" by auto
      then show ?thesis using rest
        by (metis in_set_remove1)
    qed
  qed
qed

lemma selection_loop_never_ends:
  "x \<in> set lst \<Longrightarrow> key x \<le> start \<Longrightarrow> selection_loop key start lst acc = None"
  using selection_loop_returns_pos[of key start lst acc]
  by (cases "selection_loop key start lst acc") (auto simp: not_less[symmetric])

text \<open>So the loop ends exactly when every key is above the start value.\<close>

lemma selection_loop_ends_iff:
  "(\<exists>r. selection_loop key start lst acc = Some r) \<longleftrightarrow> (\<forall>x\<in>set lst. start < key x)"
  using selection_loop_sorts[of lst start key acc] selection_loop_returns_pos[of key start lst acc]
  by blast

section \<open>Sorting by rating\<close>

text \<open>
  On a snapshot whose ratings are all above \<open>0.0\<close>, \<^verbatim>\<open>sort_movies_by_rating\<close> returns the
  entries of the snapshot, each once, by descending rating, entries of equal rating in snapshot
  order.
\<close>

lemma sort_movies_by_rating_positive:
  assumes "movies \<noteq> []" and "\<forall>m\<in>set (entries movies). 0 < entry_rating m"
  shows "\<exists>d. sort_movies_by_rating movies = Some (Lines d)
           \<and> mset d = mset (entries movies) \<and> length d = length movies
           \<and> sorted_wrt (\<lambda>a b. entry_rating b \<le> entry_rating a) d
           \<and> (\<forall>k. filter (\<lambda>m. entry_rating m = k) d
                    = filter (\<lambda>m. entry_rating m = k) (entries movies))"
proof -
  from selection_loop_sorts[OF assms(2), of "[]"] obtain d where
    d: "selection_loop entry_rating 0 (entries movies) [] = Some d"
       "mset d = mset (entries movies)"
       "sorted_wrt (\<lambda>a b. entry_rating b \<le> entry_rating a) d"
       "\<forall>k. filter (\<lambda>m. entry_rating m = k) d = filter (\<lambda>m. entry_rating m = k) (entries movies)"
    by auto
  have "length d = length (entries movies)" using d(2) by (metis size_mset)
  then have "length d = length movies" by (simp add: entries_def)
  moreover have "sort_movies_by_rating movies = Some (Lines d)"
    using assms(1) d(1) by (simp add: sort_movies_by_rating_def)
  ultimately show ?thesis using d(2,3,4) by blast
qed

text \<open>
  A rating that is not above \<open>0.0\<close> is never chosen by the inner loop, so the outer loop never
  empties its list.
\<close>

lemma sort_movies_by_rating_never_returns:
  assumes "m \<in> set (entries movies)" and "entry_rating m \<le> 0"
  shows "sort_movies_by_rating movies = None"
proof -
  have "movies \<noteq> []" using assms(1) by (auto simp: entries_def)
  moreover have "selection_loop entry_rating 0 (entries movies) [] = None"
    using assms by (rule selection_loop_never_ends)
  ultimately show ?thesis by (simp add: sort_movies_by_rating_def)
qed

text \<open>
  Claim C3: for every snapshot, sorting by descending rating returns a permutation of the
  snapshot's entries of equal length, with non-increasing ratings, entries of equal rating in
  snapshot order. The source starts each round from \<^verbatim>\<open>best_rating = 0.0\<close> and compares with
  \<^verbatim>\<open>>\<close>: on the snapshot that holds one movie rated \<open>0.0\<close> the function never returns.
\<close>

theorem sort_movies_by_rating_zero_rating_never_returns:
  "sort_movies_by_rating [(''A'', \<lparr>year = 2000, rating = 0\<rparr>)] = None"
proof -
  have "selection_loop entry_rating 0 (entries [(''A'', \<lparr>year = 2000, rating = 0\<rparr>)]) [] = None"
    by (rule selection_loop_never_ends[of "(''A'', 2000, 0)"])
       (simp_all add: entries_def entry_rating_def)
  then show ?thesis by (simp add: sort_movies_by_rating_def)
qed

section \<open>Sorting by year\<close>

text \<open>
  Claim C4, as the code has it: for every non-empty snapshot whose years are all above \<open>0\<close>,
  the answer \<^verbatim>\<open>young\<close> gives the entries of the snapshot by descending year, entries of equal
  year in snapshot order; the answer \<^verbatim>\<open>old\<close> gives that list reversed, which is by ascending
  year with entries of equal year in reverse snapshot order.
\<close>

theorem sort_movies_by_year_orders:
  assumes "movies \<noteq> []" and "\<forall>m\<in>set (entries movies). 0 < entry_year m"
  shows "\<exists>d. sort_movies_by_year (''young'' # later) movies = Some (Lines d)
           \<and> sort_movies_by_year (''old'' # later) movies = Some (Lines (rev d))
           \<and> mset d = mset (entries movies)
           \<and> sorted_wrt (\<lambda>a b. entry_year b \<le> entry_year a) d
           \<and> (\<forall>y. filter (\<lambda>m. entry_year m = y) d = filter (\<lambda>m. entry_year m = y) (entries movies))
           \<and> sorted_wrt (\<lambda>a b. entry_year a \<le> entry_year b) (rev d)
           \<and> (\<forall>y. filter (\<lambda>m. entry_year m = y) (rev d)
                    = rev (filter (\<lambda>m. entry_year m = y) (entries movies)))"
proof -
  from selection_loop_sorts[OF assms(2), of "[]"] obtain d where
    d: "selection_loop entry_year 0 (entries movies) [] = Some d"
       "mset d = mset (entries movies)"
       "sorted_wrt (\<lambda>a b. entry_year b \<le> entry_year a) d"
       "\<forall>y. filter (\<lambda>m. entry_year m = y) d = filter (\<lambda>m. entry_year m = y) (entries movies)"
    by auto
  have young: "sort_movies_by_year (''young'' # later) movies = Some (Lines d)"
    using assms(1) d(1) by (simp add: sort_movies_by_year_def)
  have old: "sort_movies_by_year (''old'' # later) movies = Some (Lines (rev d))"
    using assms(1) d(1) by (simp add: sort_movies_by_year_def)
  have asc: "sorted_wrt (\<lambda>a b. entry_year a \<le> entry_year b) (rev d)"
    using d(3) by (simp add: sorted_wrt_rev)
  have ties: "\<forall>y. filter (\<lambda>m. entry_year m = y) (rev d)
                = rev (filter (\<lambda>m. entry_year m = y) (entries movies))"
    using d(4) by (simp add: rev_filter[symmetric])
  show ?thesis using young old d(2,3,4) asc ties by blast
qed

text \<open>The scenario of the specification: A (2000), B (2010), C (2010).\<close>

theorem sort_movies_by_year_orders_witness:
  "sort_movies_by_year [''young'']
     [(''A'', \<lparr>year = 2000, rating = 5\<rparr>), (''B'', \<lparr>year = 2010, rating = 9\<rparr>),
      (''C'', \<lparr>year = 2010, rating = 9\<rparr>)]
   = Some (Lines [(''B'', 2010, 9), (''C'', 2010, 9), (''A'', 2000, 5)])
   \<and> sort_movies_by_year [''old'']
     [(''A'', \<lparr>year = 2000, rating = 5\<rparr>), (''B'', \<lparr>year = 2010, rating = 9\<rparr>),
      (''C'', \<lparr>year = 2010, rating = 9\<rparr>)]
   = Some (Lines [(''A'', 2000, 5), (''C'', 2010, 9), (''B'', 2010, 9)])"
  using sort_movies_by_year_orders
    [of "[(''A'', \<lparr>year = 2000, rating = 5\<rparr>), (''B'', \<lparr>year = 2010, rating = 9\<rparr>),
          (''C'', \<lparr>year = 2010, rating = 9\<rparr>)]" "[]"]
  by (simp add: sort_movies_by_year_def entries_def entry_year_def selection_loop.simps)

text \<open>
  Ascending order does not keep the snapshot order of equal years: with A before B in the
  snapshot, both of 2000, the answer \<^verbatim>\<open>old\<close> lists B before A.
\<close>

theorem sort_movies_by_year_ascending_ties_counterexample:
  "sort_movies_by_year [''old'']
     [(''A'', \<lparr>year = 2000, rating = 5\<rparr>), (''B'', \<lparr>year = 2000, rating = 9\<rparr>)]
   = Some (Lines [(''B'', 2000, 9), (''A'', 2000, 5)])
   \<and> sort_movies_by_year [''old'']
     [(''A'', \<lparr>year = 2000, rating = 5\<rparr>), (''B'', \<lparr>year = 2000, rating = 9\<rparr>)]
   \<noteq> Some (Lines [(''A'', 2000, 5), (''B'', 2000, 9)])"
  by (simp add: sort_movies_by_year_def entries_def entry_year_def selection_loop.simps)

section \<open>Statistics\<close>

text \<open>The folds of \<^const>\<open>py_max\<close> and \<^const>\<open>py_min\<close> compute the greatest and the least item.\<close>

lemma fold_max_eq:
  "fold (\<lambda>item best. if item > best then item else best) xs (x::real) = Max (set (x # xs))"
proof (induction xs arbitrary: x)
  case Nil
  then show ?case by simp
next
  case (Cons y ys)
  have "Max (insert x (insert y (set ys))) = Max (insert (max x y) (set ys))"
    by (cases "set ys = {}") (auto simp: max.assoc max.commute)
  then show ?case using Cons[of "if y > x then y else x"]
    by (auto simp: max_def not_less split: if_splits)
qed

lemma fold_min_eq:
  "fold (\<lambda>item best. if item < best then item else best) xs (x::real) = Min (set (x # xs))"
proof (induction xs arbitrary: x)
  case Nil
  then show ?case by simp
next
  case (Cons y ys)
  have "Min (insert x (insert y (set ys))) = Min (insert (min x y) (set ys))"
    by (cases "set ys = {}") (auto simp: min.assoc min.commute)
  then show ?case using Cons[of "if y < x then y else x"]
    by (auto simp: min_def not_less split: if_splits)
qed

lemma py_max_eq: "xs \<noteq> [] \<Longrightarrow> py_max xs = Inr (Max (set xs))"
  using fold_max_eq by (cases xs) simp_all

lemma py_min_eq: "xs \<noteq> [] \<Longrightarrow> py_min xs = Inr (Min (set xs))"
  using fold_min_eq by (cases xs) simp_all

lemma entries_ratings:
  "map (\<lambda>(movie, infos). rating infos) movies = map entry_rating (entries movies)"
  by (induction movies) (auto simp: entries_def entry_rating_def)

lemma entries_filter:
  "map (\<lambda>(movie, infos). (movie, year infos, rating infos))
     (filter (\<lambda>(movie, infos). rating infos = k) movies)
   = filter (\<lambda>m. entry_rating m = k) (entries movies)"
  by (induction movies) (auto simp: entries_def entry_rating_def)

lemma calc_rating_median_nonempty:
  assumes "movies \<noteq> []"
  shows "calc_rating_median movies
           = Inr (sort (map entry_rating (entries movies)) ! (length movies div 2))"
proof -
  have "length movies div 2 < length movies" using assms by (cases movies) auto
  then show ?thesis
    by (simp add: calc_rating_median_def entries_ratings entries_def)
qed

lemma return_best_movie_nonempty:
  assumes "movies \<noteq> []"
  shows "return_best_movie movies
           = Inr (filter (\<lambda>m. entry_rating m = Max (set (map entry_rating (entries movies))))
                    (entries movies))"
proof -
  have "map entry_rating (entries movies) \<noteq> []" using assms by (simp add: entries_def)
  from py_max_eq[OF this] show ?thesis
    by (simp add: return_best_movie_def entries_ratings entries_filter)
qed

lemma return_worst_movie_nonempty:
  assumes "movies \<noteq> []"
  shows "return_worst_movie movies
           = Inr (filter (\<lambda>m. entry_rating m = Min (set (map entry_rating (entries movies))))
                    (entries movies))"
proof -
  have "map entry_rating (entries movies) \<noteq> []" using assms by (simp add: entries_def)
  from py_min_eq[OF this] show ?thesis
    by (simp add: return_worst_movie_def entries_ratings entries_filter)
qed

text \<open>On a non-empty snapshot none of the four nested functions raises.\<close>

lemma calc_stats_nonempty:
  assumes "movies \<noteq> []"
  shows "\<exists>average median best worst.
           calc_stats_for_all_movies movies = Lines (average, median, best, worst)
         \<and> calc_rating_average movies = Inr average \<and> calc_rating_median movies = Inr median
         \<and> return_best_movie movies = Inr best \<and> return_worst_movie movies = Inr worst"
proof -
  have "\<exists>average. calc_rating_average movies = Inr average"
    using assms by (simp add: calc_rating_average_def Let_def)
  then show ?thesis
    using calc_rating_median_nonempty[OF assms] return_best_movie_nonempty[OF assms]
      return_worst_movie_nonempty[OF assms]
    by (auto simp: calc_stats_for_all_movies_def)
qed

text \<open>
  Claim C5: for every non-empty snapshot of \<open>n\<close> entries, the median is the element at index
  \<open>n div 2\<close> of the ratings sorted in ascending order (for even \<open>n\<close> the first element of the
  upper half, not the mean of the two middle ones); over the ratings 5.0, 9.0, 9.0 it is 9.0.
\<close>

theorem calc_rating_median_index:
  "(movies \<noteq> [] \<longrightarrow>
      calc_rating_median movies
        = Inr (sort (map entry_rating (entries movies)) ! (length movies div 2)))
   \<and> calc_rating_median
        [(''A'', \<lparr>year = 2000, rating = 5\<rparr>), (''B'', \<lparr>year = 2010, rating = 9\<rparr>),
         (''C'', \<lparr>year = 2010, rating = 9\<rparr>)] = Inr 9"
proof
  show "movies \<noteq> [] \<longrightarrow>
      calc_rating_median movies
        = Inr (sort (map entry_rating (entries movies)) ! (length movies div 2))"
    using calc_rating_median_nonempty by blast
  show "calc_rating_median
        [(''A'', \<lparr>year = 2000, rating = 5\<rparr>), (''B'', \<lparr>year = 2010, rating = 9\<rparr>),
         (''C'', \<lparr>year = 2010, rating = 9\<rparr>)] = Inr 9"
    by (simp add: calc_rating_median_def)
qed

text \<open>Four ratings 7, 3, 9, 5: sorted 3, 5, 7, 9, and index 2 holds 7, not the mean 6.\<close>

theorem calc_rating_median_index_witness:
  "calc_rating_median
     [(''A'', \<lparr>year = 2001, rating = 7\<rparr>), (''B'', \<lparr>year = 2002, rating = 3\<rparr>),
      (''C'', \<lparr>year = 2003, rating = 9\<rparr>), (''D'', \<lparr>year = 2004, rating = 5\<rparr>)] = Inr 7"
  using calc_rating_median_index
    [of "[(''A'', \<lparr>year = 2001, rating = 7\<rparr>), (''B'', \<lparr>year = 2002, rating = 3\<rparr>),
          (''C'', \<lparr>year = 2003, rating = 9\<rparr>), (''D'', \<lparr>year = 2004, rating = 5\<rparr>)]"]
  by (simp add: entries_def entry_rating_def)

text \<open>
  Claim C7: for every non-empty snapshot, the best (worst) movies are exactly the entries whose
  rating is the greatest (least) rating of the snapshot, every tie included, in snapshot order,
  and there is at least one.
\<close>

theorem best_and_worst_return_every_tie:
  assumes "movies \<noteq> []"
  shows "return_best_movie movies
           = Inr (filter (\<lambda>m. entry_rating m = Max (set (map entry_rating (entries movies))))
                    (entries movies))
       \<and> filter (\<lambda>m. entry_rating m = Max (set (map entry_rating (entries movies))))
                    (entries movies) \<noteq> []
       \<and> return_worst_movie movies
           = Inr (filter (\<lambda>m. entry_rating m = Min (set (map entry_rating (entries movies))))
                    (entries movies))
       \<and> filter (\<lambda>m. entry_rating m = Min (set (map entry_rating (entries movies))))
                    (entries movies) \<noteq> []"
proof -
  let ?rs = "map entry_rating (entries movies)"
  have ne: "?rs \<noteq> []" using assms by (simp add: entries_def)
  have "Max (set ?rs) \<in> set ?rs" using ne by (intro Max_in) auto
  then have b: "filter (\<lambda>m. entry_rating m = Max (set ?rs)) (entries movies) \<noteq> []"
    by (auto simp: filter_empty_conv)
  have "Min (set ?rs) \<in> set ?rs" using ne by (intro Min_in) auto
  then have w: "filter (\<lambda>m. entry_rating m = Min (set ?rs)) (entries movies) \<noteq> []"
    by (auto simp: filter_empty_conv)
  show ?thesis
    using return_best_movie_nonempty[OF assms] return_worst_movie_nonempty[OF assms] b w
    by blast
qed

text \<open>The scenario of the specification: the best movies are B and C, in that order.\<close>

theorem best_and_worst_return_every_tie_witness:
  "return_best_movie
     [(''A'', \<lparr>year = 2000, rating = 5\<rparr>), (''B'', \<lparr>year = 2010, rating = 9\<rparr>),
      (''C'', \<lparr>year = 2010, rating = 9\<rparr>)] = Inr [(''B'', 2010, 9), (''C'', 2010, 9)]
   \<and> return_worst_movie
     [(''A'', \<lparr>year = 2000, rating = 5\<rparr>), (''B'', \<lparr>year = 2010, rating = 9\<rparr>),
      (''C'', \<lparr>year = 2010, rating = 9\<rparr>)] = Inr [(''A'', 2000, 5)]"
  using best_and_worst_return_every_tie
    [of "[(''A'', \<lparr>year = 2000, rating = 5\<rparr>), (''B'', \<lparr>year = 2010, rating = 9\<rparr>),
          (''C'', \<lparr>year = 2010, rating = 9\<rparr>)]"]
  by (simp add: entries_def entry_rating_def)

text \<open>
  Claim C6: on an empty snapshot the statistics (average and median) and the random pick each
  end with the empty-database message, not with an exception. In
  \<^verbatim>\<open>calc_stats_for_all_movies\<close> the average comes first and raises \<^verbatim>\<open>ZeroDivisionError\<close>, which
  the function catches; \<^verbatim>\<open>return_random_movie\<close> tests \<^verbatim>\<open>if not movies\<close>.
\<close>

theorem empty_snapshot_reports_database_empty:
  "calc_stats_for_all_movies [] = Message database_empty
   \<and> calc_rating_average [] = Inl ZeroDivisionError
   \<and> return_random_movie randrange [] = Message database_empty"
  by (simp add: calc_stats_for_all_movies_def calc_rating_average_def return_random_movie_def)

theorem empty_snapshot_reports_database_empty_witness:
  "calc_stats_for_all_movies [] = Message ''Database is empty, add movies to database.''
   \<and> return_random_movie (\<lambda>n. 0) [] = Message ''Database is empty, add movies to database.''"
  using empty_snapshot_reports_database_empty[of "\<lambda>n. 0"]
  by (simp add: database_empty_def)

text \<open>
  Taken alone, the nested median would raise \<^verbatim>\<open>IndexError\<close> on an empty dict; inside
  \<^verbatim>\<open>calc_stats_for_all_movies\<close> it is not reached then, since the average is computed first.
\<close>

lemma calc_rating_median_empty: "calc_rating_median [] = Inl IndexError"
  by (simp add: calc_rating_median_def)

section \<open>Search\<close>

lemma search_hits:
  "map (\<lambda>(movie, infos). (movie, year infos, rating infos))
     (filter (\<lambda>(movie, infos). sublist q (str_lower movie)) movies)
   = filter (\<lambda>m. sublist q (str_lower (entry_title m))) (entries movies)"
  by (induction movies) (auto simp: entries_def entry_title_def)

text \<open>
  Claim C8, as the code has it: for every snapshot and search string, when at least one title
  contains the string case-insensitively (the string lowered by \<^verbatim>\<open>str.lower()\<close> occurs in the
  title lowered by \<^verbatim>\<open>str.lower()\<close>), the search returns exactly the entries of those titles in
  snapshot order; when none does, it returns the single message
  \<^verbatim>\<open>Couldn't found movies with '...'\<close> in place of an empty list. This holds whatever the case
  tables of \<^verbatim>\<open>str.lower()\<close> are.
\<close>

theorem search_returns_matches_or_message:
  "search_for_movie_in_dict str_lower search_request movies =
     (if filter (\<lambda>m. \<exists>ps ss. str_lower (entry_title m) = ps @ str_lower search_request @ ss)
           (entries movies) = []
      then Message (not_found_message search_request)
      else Lines (filter (\<lambda>m. \<exists>ps ss. str_lower (entry_title m) = ps @ str_lower search_request @ ss)
                    (entries movies)))"
proof -
  have "search_for_movie_in_dict str_lower search_request movies =
     (if filter (\<lambda>m. sublist (str_lower search_request) (str_lower (entry_title m)))
           (entries movies) = []
      then Message (not_found_message search_request)
      else Lines (filter (\<lambda>m. sublist (str_lower search_request) (str_lower (entry_title m)))
                    (entries movies)))"
    by (simp add: search_for_movie_in_dict_def Let_def search_hits)
  then show ?thesis by (simp only: sublist_def)
qed

text \<open>Searching \<^verbatim>\<open>at\<close>, or \<^verbatim>\<open>AT\<close>, finds Matrix and Batman, not Up.\<close>

theorem search_returns_matches_or_message_witness:
  "search_for_movie_in_dict ascii_lower ''at''
     [(''Matrix'', \<lparr>year = 1999, rating = 8\<rparr>), (''Up'', \<lparr>year = 2009, rating = 8\<rparr>),
      (''Batman'', \<lparr>year = 1989, rating = 7\<rparr>)]
   = Lines [(''Matrix'', 1999, 8), (''Batman'', 1989, 7)]
   \<and> search_for_movie_in_dict ascii_lower ''AT''
     [(''Matrix'', \<lparr>year = 1999, rating = 8\<rparr>), (''Up'', \<lparr>year = 2009, rating = 8\<rparr>),
      (''Batman'', \<lparr>year = 1989, rating = 7\<rparr>)]
   = Lines [(''Matrix'', 1999, 8), (''Batman'', 1989, 7)]"
proof -
  let ?movies = "[(''Matrix'', \<lparr>year = 1999, rating = 8\<rparr>), (''Up'', \<lparr>year = 2009, rating = 8\<rparr>),
      (''Batman'', \<lparr>year = 1989, rating = 7\<rparr>)]"
  have hits: "filter (\<lambda>m. sublist ''at'' (ascii_lower (entry_title m))) (entries ?movies)
      = [(''Matrix'', 1999, 8), (''Batman'', 1989, 7)]"
    by (simp add: entries_def entry_title_def ascii_lower_def ascii_lower_char_def
        sublist_Cons_right)
  have low: "ascii_lower ''at'' = ''at''" "ascii_lower ''AT'' = ''at''"
    by (simp_all add: ascii_lower_def ascii_lower_char_def)
  show ?thesis
    using search_returns_matches_or_message[of ascii_lower "''at''" ?movies]
      search_returns_matches_or_message[of ascii_lower "''AT''" ?movies] hits
    by (simp only: low sublist_def[symmetric]) simp
qed

text \<open>When nothing matches, the reply is the message, not the empty list of lines.\<close>

theorem search_no_match_counterexample:
  "search_for_movie_in_dict ascii_lower ''at'' [(''Up'', \<lparr>year = 2009, rating = 8\<rparr>)]
     = Message (not_found_message ''at'')
   \<and> search_for_movie_in_dict ascii_lower ''at'' [(''Up'', \<lparr>year = 2009, rating = 8\<rparr>)]
     \<noteq> Lines []"
  by (simp add: search_for_movie_in_dict_def ascii_lower_def ascii_lower_char_def
      sublist_Cons_right)

text \<open>
  Claim C10, as the code has it: for every non-empty snapshot, searching the empty string
  returns every entry of the snapshot in snapshot order. Of \<^verbatim>\<open>str.lower()\<close> this uses only
  that it lowers the empty string to itself.
\<close>

theorem search_empty_request_returns_all:
  assumes "movies \<noteq> []" and "str_lower [] = []"
  shows "search_for_movie_in_dict str_lower [] movies = Lines (entries movies)"
  using assms by (simp add: search_for_movie_in_dict_def entries_def case_prod_beta)

theorem search_empty_request_returns_all_witness:
  "ascii_lower [] = []
   \<and> search_for_movie_in_dict ascii_lower []
     [(''Matrix'', \<lparr>year = 1999, rating = 8\<rparr>), (''Up'', \<lparr>year = 2009, rating = 8\<rparr>)]
   = Lines [(''Matrix'', 1999, 8), (''Up'', 2009, 8)]"
proof -
  have low: "ascii_lower [] = []" by (simp add: ascii_lower_def)
  have ne: "[(''Matrix'', \<lparr>year = 1999, rating = 8\<rparr>), (''Up'', \<lparr>year = 2009, rating = 8\<rparr>)] \<noteq> []"
    by simp
  from search_empty_request_returns_all[of _ ascii_lower, OF ne low] low show ?thesis
    by (simp add: entries_def)
qed

text \<open>On the empty snapshot the same search returns the message.\<close>

theorem search_empty_request_empty_snapshot_counterexample:
  "search_for_movie_in_dict ascii_lower [] [] = Message (not_found_message [])
   \<and> search_for_movie_in_dict ascii_lower [] [] \<noteq> Lines []"
  by (simp add: search_for_movie_in_dict_def ascii_lower_def)

section \<open>Deleting and updating\<close>

lemma delete_movie_ok:
  "connect_fault f = None \<Longrightarrow>
     delete_movie f tbl title
       = (Inr (execute_fault f = None),
          if execute_fault f = None then filter (\<lambda>r. row_title r \<noteq> title) tbl else tbl)"
  by (auto simp: delete_movie_def split: option.splits)

lemma update_movie_ok:
  "connect_fault f = None \<Longrightarrow>
     update_movie f tbl title v
       = (Inr (execute_fault f = None),
          if execute_fault f = None
          then map (\<lambda>r. if row_title r = title then set_rating v r else r) tbl else tbl)"
  by (auto simp: update_movie_def split: option.splits)

lemma filter_absent:
  "title \<notin> set (map row_title tbl) \<Longrightarrow> filter (\<lambda>r. row_title r \<noteq> title) tbl = tbl"
  by (induction tbl) auto

lemma map_absent:
  "title \<notin> set (map row_title tbl) \<Longrightarrow>
     map (\<lambda>r. if row_title r = title then set_rating v r else r) tbl = tbl"
  by (induction tbl) auto

text \<open>
  Claim C2, as the code has it: when the connection opens, \<^verbatim>\<open>delete_movie\<close> and
  \<^verbatim>\<open>update_movie\<close> return \<^verbatim>\<open>True\<close> exactly when the statement and its commit ran without
  an exception, whether or not a row of that title existed, and \<^verbatim>\<open>False\<close> when the database
  raised. After \<^verbatim>\<open>True\<close> no row of that title is left (every row of that title has the new
  rating); after \<^verbatim>\<open>False\<close>, and whenever the title is absent, the table is unchanged.
\<close>

theorem delete_and_update_report_the_statement:
  assumes "connect_fault f = None"
  shows "fst (delete_movie f tbl title) = Inr (execute_fault f = None)
       \<and> fst (update_movie f tbl title v) = Inr (execute_fault f = None)
       \<and> (execute_fault f = None \<longrightarrow>
            snd (delete_movie f tbl title) = filter (\<lambda>r. row_title r \<noteq> title) tbl
          \<and> snd (update_movie f tbl title v)
              = map (\<lambda>r. if row_title r = title then set_rating v r else r) tbl)
       \<and> (execute_fault f \<noteq> None \<longrightarrow>
            snd (delete_movie f tbl title) = tbl \<and> snd (update_movie f tbl title v) = tbl)
       \<and> (title \<notin> set (map row_title tbl) \<longrightarrow>
            snd (delete_movie f tbl title) = tbl \<and> snd (update_movie f tbl title v) = tbl)"
  using assms filter_absent[of title tbl] map_absent[of title tbl v]
  by (simp add: delete_movie_ok update_movie_ok)

theorem delete_and_update_report_the_statement_witness:
  "delete_movie \<lparr>connect_fault = None, execute_fault = None\<rparr>
     [(''Matrix'', 1999, 8, ''url'')] ''Up'' = (Inr True, [(''Matrix'', 1999, 8, ''url'')])
   \<and> update_movie \<lparr>connect_fault = None, execute_fault = None\<rparr>
     [(''Matrix'', 1999, 8, ''url'')] ''Up'' 5 = (Inr True, [(''Matrix'', 1999, 8, ''url'')])
   \<and> delete_movie \<lparr>connect_fault = None, execute_fault = None\<rparr>
     [(''Matrix'', 1999, 8, ''url'')] ''Matrix'' = (Inr True, [])
   \<and> update_movie \<lparr>connect_fault = None, execute_fault = Some (DBError ''disk full'')\<rparr>
     [(''Matrix'', 1999, 8, ''url'')] ''Matrix'' 5 = (Inr False, [(''Matrix'', 1999, 8, ''url'')])"
  using delete_and_update_report_the_statement
    [of "\<lparr>connect_fault = None, execute_fault = None\<rparr>" "[(''Matrix'', 1999, 8, ''url'')]" "''Up''" 5]
  by (simp add: delete_movie_def update_movie_def row_title_def)

text \<open>Deleting or updating a title that the empty table does not hold returns \<^verbatim>\<open>True\<close>.\<close>

theorem delete_absent_title_counterexample:
  "delete_movie \<lparr>connect_fault = None, execute_fault = None\<rparr> [] ''Matrix'' = (Inr True, [])
   \<and> update_movie \<lparr>connect_fault = None, execute_fault = None\<rparr> [] ''Matrix'' 5 = (Inr True, [])"
  by (simp add: delete_movie_def update_movie_def)

lemma set_rating_fields:
  "row_title (set_rating v r) = row_title r" "row_year (set_rating v r) = row_year r"
  "row_poster (set_rating v r) = row_poster r" "row_rating (set_rating v r) = v"
  by (simp_all add: set_rating_def row_title_def row_year_def row_poster_def row_rating_def)

text \<open>
  Claim C9: \<^verbatim>\<open>update_movie\<close> keeps the number and order of the rows; every row keeps its
  title, year and poster; a row whose title differs from the given one is unchanged; and when
  the update returns \<^verbatim>\<open>True\<close>, a row of the given title has the new rating.
\<close>

theorem update_movie_changes_only_the_rating:
  "length (snd (update_movie f tbl title v)) = length tbl
   \<and> (\<forall>i<length tbl.
        row_title (snd (update_movie f tbl title v) ! i) = row_title (tbl ! i)
      \<and> row_year (snd (update_movie f tbl title v) ! i) = row_year (tbl ! i)
      \<and> row_poster (snd (update_movie f tbl title v) ! i) = row_poster (tbl ! i)
      \<and> (row_title (tbl ! i) \<noteq> title \<longrightarrow> snd (update_movie f tbl title v) ! i = tbl ! i)
      \<and> (row_title (tbl ! i) = title \<and> fst (update_movie f tbl title v) = Inr True
           \<longrightarrow> row_rating (snd (update_movie f tbl title v) ! i) = v))"
proof -
  consider (same) "connect_fault f \<noteq> None \<or> execute_fault f \<noteq> None"
    | (run) "connect_fault f = None" "execute_fault f = None" by blast
  then show ?thesis
  proof cases
    case same
    then have "snd (update_movie f tbl title v) = tbl"
      "fst (update_movie f tbl title v) \<noteq> Inr True"
      by (auto simp: update_movie_def split: option.splits)
    then show ?thesis by simp
  next
    case run
    then have "snd (update_movie f tbl title v)
        = map (\<lambda>r. if row_title r = title then set_rating v r else r) tbl"
      by (simp add: update_movie_def)
    then show ?thesis by (simp add: set_rating_fields)
  qed
qed

theorem update_movie_changes_only_the_rating_witness:
  "snd (update_movie \<lparr>connect_fault = None, execute_fault = None\<rparr>
     [(''Matrix'', 1999, 8, ''url1''), (''Up'', 2009, 8, ''url2'')] ''Up'' 5)
   = [(''Matrix'', 1999, 8, ''url1''), (''Up'', 2009, 5, ''url2'')]"
  using update_movie_changes_only_the_rating
    [of "\<lparr>connect_fault = None, execute_fault = None\<rparr>"
        "[(''Matrix'', 1999, 8, ''url1''), (''Up'', 2009, 8, ''url2'')]" "''Up''" 5]
  by (simp add: update_movie_def set_rating_def row_title_def row_year_def row_poster_def)

section \<open>Adding a movie\<close>

lemma get_movies_titles:
  "connect_fault f = None \<Longrightarrow>
     \<exists>existing. get_movies f tbl = Inr existing \<and> map fst existing = map row_title tbl"
  by (simp add: get_movies_def row_title_def case_prod_beta)

lemma add_movie_request_raises:
  "requests_get e title = Inl err \<Longrightarrow> add_movie e tbl title = (Inl err, tbl)"
  by (simp add: add_movie_def)

lemma add_movie_not_json:
  "requests_get e title = Inr res \<Longrightarrow> json res = None \<Longrightarrow>
     add_movie e tbl title = (Inl JSONDecodeError, tbl)"
  by (simp add: add_movie_def)

lemma add_movie_bad_status:
  "requests_get e title = Inr res \<Longrightarrow> json res = Some parsed \<Longrightarrow> status_code res \<noteq> 200 \<Longrightarrow>
     add_movie e tbl title = (Inr (Api_connection title), tbl)"
  by (simp add: add_movie_def)

lemma add_movie_provider_miss:
  "requests_get e title = Inr res \<Longrightarrow> json res = Some parsed \<Longrightarrow> status_code res = 200 \<Longrightarrow>
   parsed ''Response'' = Some ''False'' \<Longrightarrow>
     add_movie e tbl title = (Inr (Not_found title), tbl)"
  by (simp add: add_movie_def)

lemma add_movie_duplicate:
  assumes "requests_get e title = Inr res" "json res = Some parsed" "status_code res = 200"
    "parsed ''Response'' = Some response" "response \<noteq> ''False''"
    "parsed ''Title'' = Some canonical" "connect_fault (db_faults e) = None"
    "canonical \<in> set (map row_title tbl)"
  shows "add_movie e tbl title = (Inr (Duplicate canonical), tbl)"
proof -
  from get_movies_titles[OF assms(7), of tbl] obtain existing where
    "get_movies (db_faults e) tbl = Inr existing" "map fst existing = map row_title tbl"
    by blast
  then show ?thesis using assms by (simp add: add_movie_def)
qed

lemma add_movie_insert:
  assumes "requests_get e title = Inr res" "json res = Some parsed" "status_code res = 200"
    "parsed ''Response'' = Some response" "response \<noteq> ''False''"
    "parsed ''Title'' = Some canonical" "connect_fault (db_faults e) = None"
    "canonical \<notin> set (map row_title tbl)"
    "parsed ''Year'' = Some y" "parsed ''imdbRating'' = Some r" "parsed ''Poster'' = Some p"
  shows "add_movie e tbl title =
     (case execute_fault (db_faults e) of
        None \<Rightarrow> (Inr (Added canonical y r p),
                  tbl @ [(canonical, integer_affinity e y, real_affinity e r, p)])
      | Some err \<Rightarrow> (Inr (Database_error err), tbl))"
proof -
  from get_movies_titles[OF assms(7), of tbl] obtain existing where
    "get_movies (db_faults e) tbl = Inr existing" "map fst existing = map row_title tbl"
    by blast
  then show ?thesis using assms
    by (simp add: add_movie_def insert_params_def execute_insert_def row_title_def
        split: option.splits)
qed

lemma add_movie_table:
  "snd (add_movie e tbl title) = tbl
   \<or> (\<exists>t y r p. fst (add_movie e tbl title) = Inr (Added t y r p)
        \<and> t \<notin> set (map row_title tbl)
        \<and> snd (add_movie e tbl title) = tbl @ [(t, integer_affinity e y, real_affinity e r, p)])"
  by (auto simp: add_movie_def execute_insert_def row_title_def
      split: sum.splits option.splits prod.splits if_splits)

text \<open>The table never holds two rows of one title.\<close>

lemma add_movie_keeps_titles_unique:
  "distinct (map row_title tbl) \<Longrightarrow> distinct (map row_title (snd (add_movie e tbl title)))"
  using add_movie_table[of e tbl title] by (auto simp: row_title_def)

text \<open>
  The provider knows the typed title \<^verbatim>\<open>matrix\<close> as \<^verbatim>\<open>The Matrix\<close>: on the empty table the
  movie is added under the provider's title, and a second call finds that title and writes
  nothing.
\<close>

lemma add_movie_twice_example:
  "add_movie
     \<lparr>requests_get = (\<lambda>title. Inr \<lparr>status_code = 200,
         json = Some [''Response'' \<mapsto> ''True'', ''Title'' \<mapsto> ''The Matrix'',
                      ''Year'' \<mapsto> ''1999'', ''imdbRating'' \<mapsto> ''8.7'', ''Poster'' \<mapsto> ''url'']\<rparr>),
      db_faults = \<lparr>connect_fault = None, execute_fault = None\<rparr>,
      integer_affinity = (\<lambda>text. 1999), real_affinity = (\<lambda>text. 87 / 10)\<rparr>
     [] ''matrix''
   = (Inr (Added ''The Matrix'' ''1999'' ''8.7'' ''url''), [(''The Matrix'', 1999, 87 / 10, ''url'')])
 \<and> add_movie
     \<lparr>requests_get = (\<lambda>title. Inr \<lparr>status_code = 200,
         json = Some [''Response'' \<mapsto> ''True'', ''Title'' \<mapsto> ''The Matrix'',
                      ''Year'' \<mapsto> ''1999'', ''imdbRating'' \<mapsto> ''8.7'', ''Poster'' \<mapsto> ''url'']\<rparr>),
      db_faults = \<lparr>connect_fault = None, execute_fault = None\<rparr>,
      integer_affinity = (\<lambda>text. 1999), real_affinity = (\<lambda>text. 87 / 10)\<rparr>
     [(''The Matrix'', 1999, 87 / 10, ''url'')] ''matrix''
   = (Inr (Duplicate ''The Matrix''), [(''The Matrix'', 1999, 87 / 10, ''url'')])"
  by (simp add: add_movie_def get_movies_def insert_params_def execute_insert_def row_title_def)

text \<open>
  Claim C1: \<^verbatim>\<open>add_movie\<close> returns the provider-error outcome on a transport failure of the
  provider, not-found on a provider miss, duplicate without writing when the provider's title
  is already in the catalog, and otherwise inserts, returning added, or the store error with
  its detail and an unchanged store.

  The lemmas above show these steps once a response has arrived and its body has been parsed.
  But \<^verbatim>\<open>requests.get(url)\<close> and \<^verbatim>\<open>res.json()\<close> stand outside every \<^verbatim>\<open>try\<close>, although the
  docstring promises a status dictionary, the status \<^verbatim>\<open>api_connection\<close> exists for this case
  and the insert below turns its exceptions into \<^verbatim>\<open>database_error\<close>. With no connection to the
  provider \<^verbatim>\<open>requests.get\<close> raises, and \<^verbatim>\<open>add_movie\<close> raises with it: no status is returned.
\<close>

theorem add_movie_transport_failure_raises:
  "add_movie
     \<lparr>requests_get = (\<lambda>title. Inl (RequestException ''connection refused'')),
      db_faults = \<lparr>connect_fault = None, execute_fault = None\<rparr>,
      integer_affinity = (\<lambda>text. 1999), real_affinity = (\<lambda>text. 8)\<rparr>
     [] ''matrix''
   = (Inl (RequestException ''connection refused''), [])"
  by (simp add: add_movie_def)

end
